theory Spec2Isabelle
  imports Complex_Main "HOL-Library.Word" "HOL-Library.Log_Nat"
begin

unbundle bit_operations_syntax

section \<open>The D6F-PH driver (\<^verbatim>\<open>src/d6f_ph.py\<close>) as HOL functions\<close>

text \<open>
  The driver is a MicroPython class \<^verbatim>\<open>D6F_PH\<close>. Its methods become functions that take
  the object (a record of its attributes) and the outside world (the I2C bus and the
  clock) and return the result together with the updated object and world.
  Python integers are \<open>int\<close>; the elements of a \<^verbatim>\<open>bytearray\<close> are \<open>8 word\<close>; Python
  floats are idealised as \<open>real\<close>: the functions give the exact value of the expression
  that the code evaluates. What the rounding of double precision makes of the pressure is
  modelled beside them, with a bound on the distance between the two. An exception is a value \<open>Inl e\<close> of a sum type. The \<^verbatim>\<open>print\<close> call on a checksum
  failure writes to the console only and is left out.
\<close>

subsection \<open>Values, errors and the outside world\<close>

type_synonym byte = "8 word"

text \<open>
  What a caller may pass as \<^verbatim>\<open>pressure_range\<close>: a string, an integer, a float or None.
  A bool is an \<^verbatim>\<open>int\<close> in Python and behaves here as \<open>PInt 0\<close> or \<open>PInt 1\<close>.
\<close>

datatype py_value = PStr string | PInt int | PFloat real | PNone

text \<open>
  The exceptions the class can raise: the two \<^verbatim>\<open>raise Exception(msg)\<close> statements, the
  read of a local variable that was never assigned, the unpacking of \<^verbatim>\<open>None\<close> and an
  index past the end of the buffer.
\<close>

datatype error =
    Exception string
  | UnboundLocalError string
  | TypeError
  | IndexError

text \<open>What the driver does to the outside world, in the order it does it.\<close>

datatype event =
    Writeto int "byte list"
  | Sleep_ms nat
  | Readfrom_mem_into int int nat

text \<open>
  The outside world: the log of the calls made so far, the number of block reads made so
  far, and the device, which gives byte \<open>i\<close> of its answer to block read number \<open>k\<close>.
  \<^verbatim>\<open>readfrom_mem_into\<close> reads exactly as many bytes as the buffer holds.
\<close>

record world =
  events :: "event list"
  reads :: nat
  device :: "nat \<Rightarrow> nat \<Rightarrow> byte"

definition writeto :: "world \<Rightarrow> int \<Rightarrow> byte list \<Rightarrow> world" where
  "writeto w address bs = w\<lparr>events := events w @ [Writeto address bs]\<rparr>"

definition sleep_ms :: "world \<Rightarrow> nat \<Rightarrow> world" where
  "sleep_ms w ms = w\<lparr>events := events w @ [Sleep_ms ms]\<rparr>"

definition readfrom_mem_into :: "world \<Rightarrow> int \<Rightarrow> int \<Rightarrow> byte list \<Rightarrow> byte list \<times> world" where
  "readfrom_mem_into w address memaddr buf =
     (map (device w (reads w)) [0..<length buf],
      w\<lparr>events := events w @ [Readfrom_mem_into address memaddr (length buf)],
        reads := Suc (reads w)\<rparr>)"

subsection \<open>The object\<close>

text \<open>The bound method that \<^verbatim>\<open>getattr(self, func)\<close> returns.\<close>

datatype pres_method = Method_PRESSURE_MODE_P | Method_PRESSURE_MODE_PN

record driver =
  addr :: int
  pres_range :: int
  pres_func :: pres_method
  offset :: int
  en_crc :: bool
  buffer :: "byte list"

definition I2C_ADDRESS :: int where
  "I2C_ADDRESS = 0x6c"

definition PRESSURE_RANGE :: "string \<rightharpoonup> int" where
  "PRESSURE_RANGE = [''0505'' \<mapsto> 100, ''0025'' \<mapsto> 250, ''5050'' \<mapsto> 1000]"

subsection \<open>Transfer functions\<close>

text \<open>
  The exact values of the expressions of the datasheet. The code evaluates them in floats;
  \<open>PRESSURE_MODE_P_double\<close> and \<open>PRESSURE_MODE_PN_double\<close> below are the same expressions
  with every operation rounded, and lemma \<open>call_pres_func_double_close\<close> bounds the distance.
\<close>

definition PRESSURE_MODE_P :: "driver \<Rightarrow> int \<Rightarrow> real" where
  "PRESSURE_MODE_P self output_decimal =
     real_of_int ((output_decimal - 1024) * pres_range self) / 60000"

definition PRESSURE_MODE_PN :: "driver \<Rightarrow> int \<Rightarrow> real" where
  "PRESSURE_MODE_PN self output_decimal =
     real_of_int ((output_decimal - 1024) * pres_range self) / 60000
       - real_of_int (pres_range self) / 2"

definition temp_celsius :: "int \<Rightarrow> real" where
  "temp_celsius output_decimal = real_of_int ((output_decimal - 10214) * 100) / 3739"

text \<open>The call \<^verbatim>\<open>self._pres_func(raw_pres)\<close>.\<close>

definition call_pres_func :: "driver \<Rightarrow> int \<Rightarrow> real" where
  "call_pres_func self raw_pres =
     (case pres_func self of
        Method_PRESSURE_MODE_P \<Rightarrow> PRESSURE_MODE_P self raw_pres
      | Method_PRESSURE_MODE_PN \<Rightarrow> PRESSURE_MODE_PN self raw_pres)"

subsection \<open>Construction\<close>

text \<open>
  \<^verbatim>\<open>_get_pres_func\<close>: for an integer that is neither 250 nor 100 nor 1000 no branch assigns
  \<^verbatim>\<open>func\<close>, and the \<^verbatim>\<open>return getattr(self, func)\<close> that follows reads the unassigned
  local; for a value that is not an integer the \<^verbatim>\<open>else\<close> raises.
\<close>

definition get_pres_func :: "py_value \<Rightarrow> error + pres_method" where
  "get_pres_func pres_range_arg =
     (case pres_range_arg of
        PInt n \<Rightarrow>
          (if n = 250 then Inr Method_PRESSURE_MODE_P
           else if n = 100 \<or> n = 1000 then Inr Method_PRESSURE_MODE_PN
           else Inl (UnboundLocalError ''func''))
      | _ \<Rightarrow> Inl (Exception ''Error: Incorrect pressure range.''))"

text \<open>
  \<^verbatim>\<open>_get_pres_range\<close>: a string that is not a key of the table falls off the end of the
  function, which returns None; the \<^verbatim>\<open>else\<close> belongs to the \<^verbatim>\<open>isinstance\<close> test.
\<close>

definition get_pres_range :: "py_value \<Rightarrow> error + py_value" where
  "get_pres_range pressure_range =
     (case pressure_range of
        PStr s \<Rightarrow>
          (case PRESSURE_RANGE s of
             Some v \<Rightarrow> Inr (PInt v)
           | None \<Rightarrow> Inr PNone)
      | _ \<Rightarrow> Inl (Exception ''Error: Incorrect pressure range setting.''))"

text \<open>
  \<^verbatim>\<open>__init__\<close>. The field \<open>pres_range\<close> is an \<open>int\<close>: \<^verbatim>\<open>_get_pres_func\<close> returns only for
  an integer, so the last case below is never reached (lemma \<open>get_pres_func_Inr\<close>).
\<close>

definition init :: "world \<Rightarrow> int \<Rightarrow> py_value \<Rightarrow> bool \<Rightarrow> int \<Rightarrow> error + driver \<times> world" where
  "init i2c_obj address pressure_range en_crc_arg offset_arg =
     (case (case pressure_range of
              PStr s \<Rightarrow> get_pres_range pressure_range
            | _ \<Rightarrow> Inr pressure_range) of
        Inl e \<Rightarrow> Inl e
      | Inr pr \<Rightarrow>
          (case get_pres_func pr of
             Inl e \<Rightarrow> Inl e
           | Inr f \<Rightarrow>
               (case pr of
                  PInt n \<Rightarrow>
                    (let w1 = writeto i2c_obj address [0x0b, 0x00] in
                     if en_crc_arg then
                       Inr (\<lparr>addr = address, pres_range = n, pres_func = f,
                             offset = offset_arg, en_crc = True,
                             buffer = replicate 3 0\<rparr>,
                            writeto w1 address [0x00, 0xd0, 0x49, 0x18, 0x02])
                     else
                       Inr (\<lparr>addr = address, pres_range = n, pres_func = f,
                             offset = offset_arg, en_crc = False,
                             buffer = replicate 2 0\<rparr>,
                            w1))
                | _ \<Rightarrow> Inl (Exception ''Error: Incorrect pressure range.''))))"

subsection \<open>The checksum\<close>

text \<open>
  One pass of the inner loop body
  \<^verbatim>\<open>crc = (crc << 1) ^ poly if crc & 0x80 else crc << 1\<close>; nothing is masked here.
\<close>

definition crc8_shift :: "int \<Rightarrow> int \<Rightarrow> int" where
  "crc8_shift poly crc =
     (if crc AND 0x80 \<noteq> 0 then push_bit 1 crc XOR poly else push_bit 1 crc)"

text \<open>The outer loop body: the XOR with the byte, \<^verbatim>\<open>range(8)\<close> passes, the mask.\<close>

definition crc8_byte :: "int \<Rightarrow> int \<Rightarrow> int \<Rightarrow> int" where
  "crc8_byte poly crc byte =
     fold (\<lambda>_. crc8_shift poly) [0..<8] (crc XOR byte) AND 0xff"

definition crc8 :: "int list \<Rightarrow> int \<Rightarrow> int \<Rightarrow> int" where
  "crc8 byte_array poly init_arg = foldl (crc8_byte poly) init_arg byte_array XOR 0x00"

text \<open>
  The test \<^verbatim>\<open>self.en_crc and (crc8(self._buffer[:2]) != self._buffer[2])\<close>, with the
  default polynomial and initial value. \<^verbatim>\<open>self._buffer[2]\<close> raises when the buffer has
  fewer than three bytes.
\<close>

definition crc_mismatch :: "driver \<Rightarrow> error + bool" where
  "crc_mismatch self =
     (if en_crc self then
        (if 2 < length (buffer self)
         then Inr (crc8 (map uint (take 2 (buffer self))) 0x131 0x00 \<noteq> uint (buffer self ! 2))
         else Inl IndexError)
      else Inr False)"

subsection \<open>Reading\<close>

text \<open>\<^verbatim>\<open>int.from_bytes(b, 'big')\<close>.\<close>

definition from_bytes_big :: "byte list \<Rightarrow> int" where
  "from_bytes_big bs = foldl (\<lambda>acc b. acc * 256 + uint b) 0 bs"

definition read_raw :: "driver \<Rightarrow> world \<Rightarrow> (error + (int \<times> int) option) \<times> driver \<times> world" where
  "read_raw self w =
     (let w1 = writeto w (addr self) [0x00, 0xd0, 0x40, 0x18, 0x06];
          w2 = sleep_ms w1 33;
          w3 = writeto w2 (addr self) [0x00, 0xd0, 0x51, 0x2c];
          (buf1, w4) = readfrom_mem_into w3 (addr self) 0x07 (buffer self);
          self1 = self\<lparr>buffer := buf1\<rparr>
      in case crc_mismatch self1 of
           Inl e \<Rightarrow> (Inl e, self1, w4)
         | Inr True \<Rightarrow> (Inr None, self1, w4)
         | Inr False \<Rightarrow>
             (let raw_pres = from_bytes_big (take 2 (buffer self1)) - offset self1;
                  w5 = writeto w4 (addr self1) [0x00, 0xd0, 0x61, 0x2c];
                  (buf2, w6) = readfrom_mem_into w5 (addr self1) 0x07 (buffer self1);
                  self2 = self1\<lparr>buffer := buf2\<rparr>
              in case crc_mismatch self2 of
                   Inl e \<Rightarrow> (Inl e, self2, w6)
                 | Inr True \<Rightarrow> (Inr None, self2, w6)
                 | Inr False \<Rightarrow>
                     (let raw_temp = from_bytes_big (take 2 (buffer self2))
                      in (Inr (Some (raw_pres, raw_temp)), self2, w6))))"

text \<open>\<^verbatim>\<open>read\<close>: a pair is never falsy, so only None takes the early return.\<close>

definition read :: "driver \<Rightarrow> world \<Rightarrow> (error + (real \<times> real) option) \<times> driver \<times> world" where
  "read self w =
     (case read_raw self w of
        (Inl e, s) \<Rightarrow> (Inl e, s)
      | (Inr None, s) \<Rightarrow> (Inr None, s)
      | (Inr (Some (raw_pres, raw_temp)), self', w') \<Rightarrow>
          (let temp = temp_celsius raw_temp;
               pres = call_pres_func self' raw_pres
           in (Inr (Some (pres, temp)), self', w')))"

text \<open>\<^verbatim>\<open>pa, _ = self.read()\<close>: unpacking None raises TypeError.\<close>

definition read_pa :: "driver \<Rightarrow> world \<Rightarrow> (error + real) \<times> driver \<times> world" where
  "read_pa self w =
     (case read self w of
        (Inl e, s) \<Rightarrow> (Inl e, s)
      | (Inr None, s) \<Rightarrow> (Inl TypeError, s)
      | (Inr (Some (pa, _)), s) \<Rightarrow> (Inr pa, s))"

definition read_psi :: "driver \<Rightarrow> world \<Rightarrow> (error + real) \<times> driver \<times> world" where
  "read_psi self w =
     (case read_pa self w of
        (Inl e, s) \<Rightarrow> (Inl e, s)
      | (Inr pa, s) \<Rightarrow> (Inr (pa / 6894.75729), s))"

definition read_hpa :: "driver \<Rightarrow> world \<Rightarrow> (error + real) \<times> driver \<times> world" where
  "read_hpa self w =
     (case read_pa self w of
        (Inl e, s) \<Rightarrow> (Inl e, s)
      | (Inr pa, s) \<Rightarrow> (Inr (pa / 100), s))"

definition read_temp_c :: "driver \<Rightarrow> world \<Rightarrow> (error + real) \<times> driver \<times> world" where
  "read_temp_c self w =
     (case read self w of
        (Inl e, s) \<Rightarrow> (Inl e, s)
      | (Inr None, s) \<Rightarrow> (Inl TypeError, s)
      | (Inr (Some (_, temp)), s) \<Rightarrow> (Inr temp, s))"

definition read_temp_f :: "driver \<Rightarrow> world \<Rightarrow> (error + real) \<times> driver \<times> world" where
  "read_temp_f self w =
     (case read_temp_c self w of
        (Inl e, s) \<Rightarrow> (Inl e, s)
      | (Inr temp, s) \<Rightarrow> (Inr (temp * 1.8 + 32), s))"

subsection \<open>The checksum as the specification words it\<close>

text \<open>
  The specification describes the checksum on an 8-bit register: XOR the byte into the
  register, then eight times shift left by one bit, XORing with the polynomial byte when
  the top bit was set. On \<open>8 word\<close> the shift drops the bit that leaves the register.
\<close>

definition register_shift :: "byte \<Rightarrow> byte \<Rightarrow> byte" where
  "register_shift p r = (if r AND 0x80 \<noteq> 0 then push_bit 1 r XOR p else push_bit 1 r)"

definition crc8_register :: "byte list \<Rightarrow> byte \<Rightarrow> byte \<Rightarrow> byte" where
  "crc8_register bs p r0 = foldl (\<lambda>r b. (register_shift p ^^ 8) (r XOR b)) r0 bs"

text \<open>
  The standard CRC-8/Maxim (Dallas 1-Wire) checksum that the specification and the
  docstring of \<^verbatim>\<open>crc8\<close> name: polynomial \<open>x^8 + x^5 + x^4 + 1\<close>, initial value 0, input
  and output reflected, so the register shifts right and the polynomial is the bit
  reversal \<open>0x8C\<close> of \<open>0x31\<close>. Its check value for the ASCII digits 1 to 9 is \<open>0xA1\<close>.
\<close>

definition maxim_shift :: "byte \<Rightarrow> byte" where
  "maxim_shift r = (if r AND 1 \<noteq> 0 then drop_bit 1 r XOR 0x8C else drop_bit 1 r)"

definition crc8_maxim :: "byte list \<Rightarrow> byte" where
  "crc8_maxim bs = foldl (\<lambda>r b. (maxim_shift ^^ 8) (r XOR b)) 0 bs"

subsection \<open>Drivers that construction and reading produce\<close>

text \<open>
  What \<^verbatim>\<open>__init__\<close> establishes and every read keeps: the buffer has three bytes with
  the checksum enabled and two without, the full-scale value is one of the three of the
  table, and the transfer function is the one chosen for it.
\<close>

definition wf_driver :: "driver \<Rightarrow> bool" where
  "wf_driver self =
     (length (buffer self) = (if en_crc self then 3 else 2)
      \<and> (pres_range self = 100 \<or> pres_range self = 250 \<or> pres_range self = 1000)
      \<and> pres_func self =
          (if pres_range self = 250 then Method_PRESSURE_MODE_P else Method_PRESSURE_MODE_PN))"

text \<open>The \<open>n\<close> bytes that the device delivers to the block read number \<open>k\<close> from now.\<close>

definition block :: "world \<Rightarrow> nat \<Rightarrow> nat \<Rightarrow> byte list" where
  "block w k n = map (device w (reads w + k)) [0..<n]"

text \<open>A three-byte block whose third byte is the checksum of the first two.\<close>

definition checksum_ok :: "byte list \<Rightarrow> bool" where
  "checksum_ok b = (crc8 (map uint (take 2 b)) 0x131 0x00 = uint (b ! 2))"

text \<open>
  A device that answers the listed blocks, one to each block read, and zeros thereafter;
  and a world in which nothing has happened yet.
\<close>

definition device_of :: "byte list list \<Rightarrow> nat \<Rightarrow> nat \<Rightarrow> byte" where
  "device_of answers k i =
     (if k < length answers \<and> i < length (answers ! k) then answers ! k ! i else 0)"

definition fresh_world :: "byte list list \<Rightarrow> world" where
  "fresh_world answers = \<lparr>events = [], reads = 0, device = device_of answers\<rparr>"

text \<open>The events of one raw read, as far as the pressure block and in full.\<close>

definition pressure_events :: "int \<Rightarrow> nat \<Rightarrow> event list" where
  "pressure_events a n =
     [Writeto a [0x00, 0xd0, 0x40, 0x18, 0x06],
      Sleep_ms 33,
      Writeto a [0x00, 0xd0, 0x51, 0x2c],
      Readfrom_mem_into a 0x07 n]"

definition temperature_events :: "int \<Rightarrow> nat \<Rightarrow> event list" where
  "temperature_events a n =
     [Writeto a [0x00, 0xd0, 0x61, 0x2c],
      Readfrom_mem_into a 0x07 n]"

subsection \<open>The transfer functions in double precision\<close>








section \<open>Properties of the checksum\<close>

subsection \<open>The unmasked integer loop keeps an 8-bit register in its low bits\<close>

lemma top_bit_int: "((c::int) AND 0x80 \<noteq> 0) = bit c 7"
  using and_exp_eq_0_iff_not_bit [of c 7] by simp

lemma top_bit_byte: "((r::byte) AND 0x80 \<noteq> 0) = bit r 7"
  using and_exp_eq_0_iff_not_bit [of r 7] by simp

lemma crc8_shift_register:
  "(word_of_int (crc8_shift poly c) :: byte) = register_shift (word_of_int poly) (word_of_int c)"
proof -
  have sh: "(word_of_int (push_bit 1 c) :: byte) = push_bit 1 (word_of_int c)"
    by (simp add: push_bit_eq_mult wi_hom_mult [symmetric])
  have x: "(word_of_int (push_bit 1 c XOR poly) :: byte)
             = push_bit 1 (word_of_int c) XOR word_of_int poly"
    by (simp only: word_wi_log_defs(4) [symmetric] sh)
  have t: "bit (word_of_int c :: byte) 7 = bit c 7"
    by (simp add: bit_word_of_int_iff)
  show ?thesis
    by (simp only: crc8_shift_def register_shift_def top_bit_int top_bit_byte t sh x
        if_distrib [of word_of_int])
qed

lemma fold_shift_register:
  "(word_of_int (fold (\<lambda>_. crc8_shift poly) xs c) :: byte)
     = (register_shift (word_of_int poly) ^^ length xs) (word_of_int c)"
  by (induction xs arbitrary: c) (simp_all add: crc8_shift_register funpow_swap1)

lemma crc8_byte_register:
  "crc8_byte poly c b
     = uint ((register_shift (word_of_int poly) ^^ 8) (word_of_int c XOR word_of_int b :: byte))"
proof -
  have "crc8_byte poly c b = take_bit 8 (fold (\<lambda>_. crc8_shift poly) [0..<8] (c XOR b))"
    by (simp add: crc8_byte_def take_bit_eq_mask mask_eq_exp_minus_1)
  also have "\<dots> = uint (word_of_int (fold (\<lambda>_. crc8_shift poly) [0..<8] (c XOR b)) :: byte)"
    by (simp add: uint_word_of_int_eq)
  finally show ?thesis
    by (simp only: fold_shift_register length_upt word_wi_log_defs) simp
qed

lemma crc8_byte_word:
  "(word_of_int (crc8_byte poly c b) :: byte)
     = (register_shift (word_of_int poly) ^^ 8) (word_of_int c XOR word_of_int b)"
  by (simp add: crc8_byte_register)

lemma foldl_crc8_byte_word:
  "(word_of_int (foldl (crc8_byte poly) c bs) :: byte)
     = crc8_register (map word_of_int bs) (word_of_int poly) (word_of_int c)"
  unfolding crc8_register_def
  by (induction bs arbitrary: c) (simp_all add: crc8_byte_word)

lemma crc8_byte_range: "0 \<le> crc8_byte poly c b \<and> crc8_byte poly c b \<le> 255"
proof -
  let ?w = "(register_shift (word_of_int poly) ^^ 8) (word_of_int c XOR word_of_int b :: byte)"
  have "uint ?w < 2 ^ 8" using uint_lt2p [of ?w] by simp
  moreover have "0 \<le> uint ?w" by simp
  ultimately show ?thesis by (simp add: crc8_byte_register)
qed

lemma foldl_crc8_byte_range:
  "bs \<noteq> [] \<Longrightarrow> 0 \<le> foldl (crc8_byte poly) c bs \<and> foldl (crc8_byte poly) c bs \<le> 255"
  by (induction bs rule: rev_induct) (simp_all add: crc8_byte_range)

lemma crc8_empty: "crc8 [] poly init_arg = init_arg"
  by (simp add: crc8_def)

text \<open>
  C7. For every non-empty byte sequence, every polynomial and every initial value,
  \<^verbatim>\<open>crc8\<close> returns the final value of the 8-bit register that starts at the initial value,
  takes each byte by XOR and is then shifted left eight times, with the polynomial byte
  XORed in whenever the top bit was set; the result lies in 0..255. The function is a
  function of its three arguments only.
\<close>

theorem crc8_is_register:
  assumes "byte_array \<noteq> []"
  shows "crc8 byte_array poly init_arg
           = uint (crc8_register (map word_of_int byte_array) (word_of_int poly)
                     (word_of_int init_arg))
         \<and> 0 \<le> crc8 byte_array poly init_arg \<and> crc8 byte_array poly init_arg \<le> 255"
proof -
  let ?r = "foldl (crc8_byte poly) init_arg byte_array"
  have rng: "0 \<le> ?r \<and> ?r \<le> 255" using assms by (rule foldl_crc8_byte_range)
  then have "?r = take_bit 8 ?r" by (simp add: take_bit_int_eq_self)
  also have "\<dots> = uint (word_of_int ?r :: byte)" by (simp add: uint_word_of_int_eq)
  finally have "?r = uint (crc8_register (map word_of_int byte_array) (word_of_int poly)
                             (word_of_int init_arg))"
    by (simp only: foldl_crc8_byte_word)
  with rng show ?thesis by (simp add: crc8_def)
qed

theorem crc8_is_register_witness:
  "[0x12, 0x34 :: int] \<noteq> []
   \<and> crc8 [0x12, 0x34] 0x131 0x00
       = uint (crc8_register (map word_of_int [0x12, 0x34]) (word_of_int 0x131) (word_of_int 0x00))
   \<and> 0 \<le> crc8 [0x12, 0x34] 0x131 0x00 \<and> crc8 [0x12, 0x34] 0x131 0x00 \<le> 255"
proof -
  have ne: "[0x12, 0x34 :: int] \<noteq> []" by simp
  from crc8_is_register [of "[0x12, 0x34]" "0x131" "0x00"] ne show ?thesis by blast
qed

subsection \<open>The checksum is not the reflected CRC-8/Maxim\<close>

lemma maxim_shift_8:
  "(maxim_shift ^^ 8) r =
     maxim_shift (maxim_shift (maxim_shift (maxim_shift
       (maxim_shift (maxim_shift (maxim_shift (maxim_shift r)))))))"
  by (simp add: eval_nat_numeral)

lemma crc8_maxim_check:
  "crc8_maxim [0x31, 0x32, 0x33, 0x34, 0x35, 0x36, 0x37, 0x38, 0x39] = 0xA1"
  by (simp add: crc8_maxim_def maxim_shift_8 maxim_shift_def)

lemma crc8_check:
  "crc8 [0x31, 0x32, 0x33, 0x34, 0x35, 0x36, 0x37, 0x38, 0x39] 0x131 0x00 = 0xA2"
  by code_simp

lemma crc8_zero_zero: "crc8 [0x00, 0x00] 0x131 0x00 = 0x00 \<and> crc8_maxim [0x00, 0x00] = 0x00"
  by code_simp

text \<open>
  C2. For the single byte \<open>0x01\<close>, with the default polynomial and initial value, \<^verbatim>\<open>crc8\<close>
  returns \<open>0x31\<close>, the polynomial itself, because it shifts to the left; the CRC-8/Maxim
  value of that input is \<open>0x5E\<close>.
\<close>

theorem crc8_one_differs_from_maxim:
  "crc8 [0x01] 0x131 0x00 = 0x31 \<and> uint (crc8_maxim [0x01]) = 0x5E"
  by code_simp

section \<open>Construction\<close>

lemma get_pres_func_Inr:
  "get_pres_func pr = Inr f \<Longrightarrow>
     \<exists>n. pr = PInt n \<and> (n = 100 \<or> n = 250 \<or> n = 1000)
       \<and> f = (if n = 250 then Method_PRESSURE_MODE_P else Method_PRESSURE_MODE_PN)"
  by (cases pr) (auto simp: get_pres_func_def split: if_splits)

lemma init_PInt:
  "init w a (PInt n) crc off =
     (if n = 100 \<or> n = 250 \<or> n = 1000 then
        Inr (\<lparr>addr = a, pres_range = n,
              pres_func = (if n = 250 then Method_PRESSURE_MODE_P else Method_PRESSURE_MODE_PN),
              offset = off, en_crc = crc, buffer = replicate (if crc then 3 else 2) 0\<rparr>,
             if crc then writeto (writeto w a [0x0b, 0x00]) a [0x00, 0xd0, 0x49, 0x18, 0x02]
             else writeto w a [0x0b, 0x00])
      else Inl (UnboundLocalError ''func''))"
  by (simp add: init_def get_pres_func_def Let_def)

lemma init_PStr:
  "init w a (PStr s) crc off =
     (case PRESSURE_RANGE s of
        Some n \<Rightarrow> init w a (PInt n) crc off
      | None \<Rightarrow> Inl (Exception ''Error: Incorrect pressure range.''))"
  by (simp add: init_def get_pres_range_def get_pres_func_def split: option.splits)

lemma init_PFloat:
  "init w a (PFloat x) crc off = Inl (Exception ''Error: Incorrect pressure range.'')"
  by (simp add: init_def get_pres_func_def)

lemma init_PNone:
  "init w a PNone crc off = Inl (Exception ''Error: Incorrect pressure range.'')"
  by (simp add: init_def get_pres_func_def)

lemma PRESSURE_RANGE_models:
  "PRESSURE_RANGE ''0505'' = Some 100" "PRESSURE_RANGE ''0025'' = Some 250"
  "PRESSURE_RANGE ''5050'' = Some 1000"
  by (simp_all add: PRESSURE_RANGE_def)

lemma PRESSURE_RANGE_Some:
  "PRESSURE_RANGE s = Some n \<Longrightarrow> n = 100 \<or> n = 250 \<or> n = 1000"
  by (auto simp: PRESSURE_RANGE_def split: if_splits)

lemma PRESSURE_RANGE_None:
  "s \<noteq> ''0505'' \<Longrightarrow> s \<noteq> ''0025'' \<Longrightarrow> s \<noteq> ''5050'' \<Longrightarrow> PRESSURE_RANGE s = None"
  by (simp add: PRESSURE_RANGE_def)

lemma init_wf:
  assumes "init w a pr crc off = Inr (d, w')"
  shows "wf_driver d \<and> addr d = a \<and> en_crc d = crc \<and> offset d = off"
proof (cases pr)
  case (PStr s)
  with assms obtain n where n: "PRESSURE_RANGE s = Some n" and i: "init w a (PInt n) crc off = Inr (d, w')"
    by (auto simp: init_PStr split: option.splits)
  from i show ?thesis
    by (auto simp: init_PInt wf_driver_def split: if_splits)
next
  case (PInt n)
  with assms show ?thesis
    by (auto simp: init_PInt wf_driver_def split: if_splits)
next
  case (PFloat x)
  with assms show ?thesis by (simp add: init_PFloat)
next
  case PNone
  with assms show ?thesis by (simp add: init_PNone)
qed

lemma init_named_models:
  "\<exists>d w'. init w a (PStr ''0505'') crc off = Inr (d, w') \<and> pres_range d = 100"
  "\<exists>d w'. init w a (PStr ''0025'') crc off = Inr (d, w') \<and> pres_range d = 250"
  "\<exists>d w'. init w a (PStr ''5050'') crc off = Inr (d, w') \<and> pres_range d = 1000"
  by (simp_all add: init_PStr init_PInt PRESSURE_RANGE_models)

lemma init_unknown_model:
  "s \<noteq> ''0505'' \<Longrightarrow> s \<noteq> ''0025'' \<Longrightarrow> s \<noteq> ''5050'' \<Longrightarrow>
     init w a (PStr s) crc off = Inl (Exception ''Error: Incorrect pressure range.'')"
  by (simp add: init_PStr PRESSURE_RANGE_None)

lemma init_errors:
  "init w a pr crc off = Inl e \<Longrightarrow>
     e = Exception ''Error: Incorrect pressure range.'' \<or> e = UnboundLocalError ''func''"
  by (cases pr) (auto simp: init_PStr init_PInt init_PFloat init_PNone
      split: option.splits if_splits dest: PRESSURE_RANGE_Some)


text \<open>
  C3. For the integer 500, which is not a full-scale value of the table, construction
  does not raise the configuration exception: \<^verbatim>\<open>_get_pres_func\<close> reads the local
  \<^verbatim>\<open>func\<close> that no branch assigned, and the error is an UnboundLocalError. No bus write
  has happened by then and no object is produced.
\<close>

theorem init_unlisted_integer_unbound:
  "init w a (PInt 500) crc off = Inl (UnboundLocalError ''func'')"
  by (simp add: init_PInt)

section \<open>Reading\<close>

lemma crc_mismatch_buffer:
  "crc_mismatch (d\<lparr>buffer := b\<rparr>) =
     (if en_crc d then (if 2 < length b then Inr (\<not> checksum_ok b) else Inl IndexError)
      else Inr False)"
  by (simp add: crc_mismatch_def checksum_ok_def)

lemma wf_driver_length: "wf_driver d \<Longrightarrow> length (buffer d) = (if en_crc d then 3 else 2)"
  by (simp add: wf_driver_def)

lemma read_raw_eq:
  assumes "wf_driver d"
  shows "read_raw d w =
     (let n = length (buffer d);
          b1 = block w 0 n;
          b2 = block w 1 n;
          w4 = w\<lparr>events := events w @ pressure_events (addr d) n, reads := Suc (reads w)\<rparr>;
          w6 = w\<lparr>events := events w @ pressure_events (addr d) n @ temperature_events (addr d) n,
                 reads := Suc (Suc (reads w))\<rparr>
      in if en_crc d \<and> \<not> checksum_ok b1 then (Inr None, d\<lparr>buffer := b1\<rparr>, w4)
         else if en_crc d \<and> \<not> checksum_ok b2 then (Inr None, d\<lparr>buffer := b2\<rparr>, w6)
         else (Inr (Some (from_bytes_big (take 2 b1) - offset d, from_bytes_big (take 2 b2))),
               d\<lparr>buffer := b2\<rparr>, w6))"
proof (cases "en_crc d")
  case True
  with assms have len: "length (buffer d) = 3" by (simp add: wf_driver_length)
  show ?thesis
    by (simp add: read_raw_def Let_def readfrom_mem_into_def writeto_def sleep_ms_def
        crc_mismatch_buffer block_def pressure_events_def temperature_events_def True len)
next
  case False
  with assms have len: "length (buffer d) = 2" by (simp add: wf_driver_length)
  show ?thesis
    by (simp add: read_raw_def Let_def readfrom_mem_into_def writeto_def sleep_ms_def
        crc_mismatch_buffer block_def pressure_events_def temperature_events_def False len)
qed

lemma length_block: "length (block w k n) = n"
  by (simp add: block_def)

lemma read_raw_fst:
  assumes "wf_driver d"
  shows "fst (read_raw d w) =
     (if en_crc d \<and> \<not> checksum_ok (block w 0 (length (buffer d))) then Inr None
      else if en_crc d \<and> \<not> checksum_ok (block w 1 (length (buffer d))) then Inr None
      else Inr (Some (from_bytes_big (take 2 (block w 0 (length (buffer d)))) - offset d,
                      from_bytes_big (take 2 (block w 1 (length (buffer d)))))))"
  by (simp add: read_raw_eq [OF assms] Let_def)

lemma read_raw_events:
  assumes "wf_driver d"
  shows "events (snd (snd (read_raw d w))) =
     events w @ pressure_events (addr d) (length (buffer d))
       @ (if en_crc d \<and> \<not> checksum_ok (block w 0 (length (buffer d))) then []
          else temperature_events (addr d) (length (buffer d)))"
  by (simp add: read_raw_eq [OF assms] Let_def)

lemma read_raw_driver:
  assumes "wf_driver d"
  shows "\<exists>b. fst (snd (read_raw d w)) = d\<lparr>buffer := b\<rparr> \<and> length b = length (buffer d)"
proof (cases "en_crc d \<and> \<not> checksum_ok (block w 0 (length (buffer d)))")
  case True
  then have "fst (snd (read_raw d w)) = d\<lparr>buffer := block w 0 (length (buffer d))\<rparr>"
    by (simp add: read_raw_eq [OF assms] Let_def)
  then show ?thesis using length_block by blast
next
  case False
  then have "fst (snd (read_raw d w)) = d\<lparr>buffer := block w 1 (length (buffer d))\<rparr>"
    by (auto simp: read_raw_eq [OF assms] Let_def)
  then show ?thesis using length_block by blast
qed

lemma read_raw_wf:
  assumes "wf_driver d"
  shows "wf_driver (fst (snd (read_raw d w)))"
proof -
  from read_raw_driver [OF assms, of w] obtain b
    where "fst (snd (read_raw d w)) = d\<lparr>buffer := b\<rparr>" "length b = length (buffer d)" by blast
  with assms show ?thesis by (simp add: wf_driver_def)
qed


lemma read_fst:
  assumes "wf_driver d"
  shows "fst (read d w) =
     (case fst (read_raw d w) of
        Inl e \<Rightarrow> Inl e
      | Inr None \<Rightarrow> Inr None
      | Inr (Some (raw_pres, raw_temp)) \<Rightarrow>
          Inr (Some (call_pres_func d raw_pres, temp_celsius raw_temp)))"
proof -
  from read_raw_driver [OF assms, of w] obtain b
    where b: "fst (snd (read_raw d w)) = d\<lparr>buffer := b\<rparr>" by blast
  have c: "call_pres_func (d\<lparr>buffer := b\<rparr>) = call_pres_func d"
    by (rule ext, cases "pres_func d")
      (simp_all add: call_pres_func_def PRESSURE_MODE_P_def PRESSURE_MODE_PN_def)
  obtain r d' w' where r: "read_raw d w = (r, d', w')" by (cases "read_raw d w")
  with b have "d' = d\<lparr>buffer := b\<rparr>" by simp
  with r c show ?thesis
    by (simp add: read_def split: sum.splits option.splits prod.splits)
qed

lemma read_snd: "snd (read d w) = snd (read_raw d w)"
  by (simp add: read_def split: sum.splits option.splits prod.splits)

lemma read_pa_fst:
  "fst (read_pa d w) =
     (case fst (read d w) of
        Inl e \<Rightarrow> Inl e | Inr None \<Rightarrow> Inl TypeError | Inr (Some (pa, t)) \<Rightarrow> Inr pa)"
  by (simp add: read_pa_def split: sum.splits option.splits prod.splits)

lemma read_temp_c_fst:
  "fst (read_temp_c d w) =
     (case fst (read d w) of
        Inl e \<Rightarrow> Inl e | Inr None \<Rightarrow> Inl TypeError | Inr (Some (pa, t)) \<Rightarrow> Inr t)"
  by (simp add: read_temp_c_def split: sum.splits option.splits prod.splits)

lemma read_psi_fst:
  "fst (read_psi d w) =
     (case fst (read_pa d w) of Inl e \<Rightarrow> Inl e | Inr pa \<Rightarrow> Inr (pa / 6894.75729))"
  by (simp add: read_psi_def split: sum.splits prod.splits)

lemma read_hpa_fst:
  "fst (read_hpa d w) =
     (case fst (read_pa d w) of Inl e \<Rightarrow> Inl e | Inr pa \<Rightarrow> Inr (pa / 100))"
  by (simp add: read_hpa_def split: sum.splits prod.splits)

lemma read_temp_f_fst:
  "fst (read_temp_f d w) =
     (case fst (read_temp_c d w) of Inl e \<Rightarrow> Inl e | Inr t \<Rightarrow> Inr (t * 1.8 + 32))"
  by (simp add: read_temp_f_def split: sum.splits prod.splits)

lemma read_pa_snd: "snd (read_pa d w) = snd (read_raw d w)"
proof -
  obtain r s where r: "read d w = (r, s)" by (cases "read d w")
  with read_snd [of d w] have "snd (read_raw d w) = s" by simp
  with r show ?thesis by (simp add: read_pa_def split: sum.splits option.splits prod.splits)
qed

lemma read_temp_c_snd: "snd (read_temp_c d w) = snd (read_raw d w)"
proof -
  obtain r s where r: "read d w = (r, s)" by (cases "read d w")
  with read_snd [of d w] have "snd (read_raw d w) = s" by simp
  with r show ?thesis by (simp add: read_temp_c_def split: sum.splits option.splits prod.splits)
qed

lemma read_psi_snd: "snd (read_psi d w) = snd (read_raw d w)"
proof -
  obtain r s where r: "read_pa d w = (r, s)" by (cases "read_pa d w")
  with read_pa_snd [of d w] have "snd (read_raw d w) = s" by simp
  with r show ?thesis by (simp add: read_psi_def split: sum.splits)
qed

lemma read_hpa_snd: "snd (read_hpa d w) = snd (read_raw d w)"
proof -
  obtain r s where r: "read_pa d w = (r, s)" by (cases "read_pa d w")
  with read_pa_snd [of d w] have "snd (read_raw d w) = s" by simp
  with r show ?thesis by (simp add: read_hpa_def split: sum.splits)
qed

lemma read_temp_f_snd: "snd (read_temp_f d w) = snd (read_raw d w)"
proof -
  obtain r s where r: "read_temp_c d w = (r, s)" by (cases "read_temp_c d w")
  with read_temp_c_snd [of d w] have "snd (read_raw d w) = s" by simp
  with r show ?thesis by (simp add: read_temp_f_def split: sum.splits)
qed

lemma checksum_mismatch_outcomes:
  assumes "wf_driver d" "en_crc d"
    and "\<not> checksum_ok (block w 0 3) \<or> \<not> checksum_ok (block w 1 3)"
  shows "fst (read_raw d w) = Inr None" "fst (read d w) = Inr None"
    "fst (read_pa d w) = Inl TypeError" "fst (read_psi d w) = Inl TypeError"
    "fst (read_hpa d w) = Inl TypeError" "fst (read_temp_c d w) = Inl TypeError"
    "fst (read_temp_f d w) = Inl TypeError"
proof -
  from assms have len: "length (buffer d) = 3" by (simp add: wf_driver_length)
  show raw: "fst (read_raw d w) = Inr None"
    using assms(2,3) by (auto simp: read_raw_fst [OF assms(1)] len)
  show rd: "fst (read d w) = Inr None"
    by (simp add: read_fst [OF assms(1)] raw)
  show pa: "fst (read_pa d w) = Inl TypeError" by (simp add: read_pa_fst rd)
  show tc: "fst (read_temp_c d w) = Inl TypeError" by (simp add: read_temp_c_fst rd)
  show "fst (read_psi d w) = Inl TypeError" by (simp add: read_psi_fst pa)
  show "fst (read_hpa d w) = Inl TypeError" by (simp add: read_hpa_fst pa)
  show "fst (read_temp_f d w) = Inl TypeError" by (simp add: read_temp_f_fst tc)
qed

subsection \<open>A checksum mismatch\<close>

text \<open>
  C1. A driver is constructed for model 5050 with the checksum enabled, and the device
  answers the pressure read with the bytes \<open>00 00 01\<close>, whose checksum byte is wrong. Then
  \<^verbatim>\<open>read\<close> returns None, but each of \<^verbatim>\<open>read_pa\<close>, \<^verbatim>\<open>read_psi\<close>, \<^verbatim>\<open>read_hpa\<close>,
  \<^verbatim>\<open>read_temp_c\<close> and \<^verbatim>\<open>read_temp_f\<close> raises TypeError, because it unpacks that None.
\<close>

theorem convenience_reads_raise_on_checksum_mismatch:
  "map_sum id (\<lambda>(d, w). (fst (read d w), fst (read_pa d w), fst (read_psi d w),
                          fst (read_hpa d w), fst (read_temp_c d w), fst (read_temp_f d w)))
     (init (fresh_world [[0x00, 0x00, 0x01]]) I2C_ADDRESS (PStr ''5050'') True 0)
   = Inr (Inr None, Inl TypeError, Inl TypeError, Inl TypeError, Inl TypeError, Inl TypeError)"
proof -
  let ?w = "fresh_world [[0x00, 0x00, 0x01]]"
  obtain d w where i: "init ?w I2C_ADDRESS (PStr ''5050'') True 0 = Inr (d, w)"
    and w: "w = writeto (writeto ?w I2C_ADDRESS [0x0b, 0x00]) I2C_ADDRESS [0x00, 0xd0, 0x49, 0x18, 0x02]"
    by (simp add: init_PStr init_PInt PRESSURE_RANGE_models)
  from init_wf [OF i] have wf: "wf_driver d" and crc: "en_crc d" by simp_all
  have "block w 0 3 = [0x00, 0x00, 0x01]"
    by (simp add: w block_def writeto_def fresh_world_def device_of_def upt_rec)
  moreover have "\<not> checksum_ok [0x00, 0x00, 0x01]"
    unfolding checksum_ok_def by code_simp
  ultimately have bad: "\<not> checksum_ok (block w 0 3) \<or> \<not> checksum_ok (block w 1 3)" by simp
  from checksum_mismatch_outcomes [OF wf crc bad] i show ?thesis by simp
qed

subsection \<open>Reading without the checksum\<close>

lemma from_bytes_big_2: "from_bytes_big [h, l] = uint h * 256 + uint l"
  by (simp add: from_bytes_big_def)

lemma block_2: "block w k 2 = [device w (reads w + k) 0, device w (reads w + k) 1]"
  by (simp add: block_def upt_rec)

lemma block_3:
  "block w k 3 = [device w (reads w + k) 0, device w (reads w + k) 1, device w (reads w + k) 2]"
  by (simp add: block_def upt_rec numeral_2_eq_2)

lemma from_bytes_big_2_range: "0 \<le> from_bytes_big [h, l] \<and> from_bytes_big [h, l] \<le> 65535"
proof -
  have "uint h < 2 ^ 8" "uint l < 2 ^ 8" using uint_lt2p [of h] uint_lt2p [of l] by simp_all
  moreover have "0 \<le> uint h" "0 \<le> uint l" by simp_all
  ultimately show ?thesis by (simp add: from_bytes_big_2)
qed

text \<open>
  C10. With the checksum disabled, whatever the device answers, the raw read returns a
  pair and never None: the raw temperature is the big-endian value of the two bytes of
  the second block, between 0 and 65535, and the raw pressure is the big-endian value of
  the two bytes of the first block minus the offset. The driver after the read is again
  such a driver, so the same holds for every later read.
\<close>

theorem read_raw_without_checksum:
  assumes "wf_driver d" and "\<not> en_crc d"
  shows "fst (read_raw d w) =
           Inr (Some (uint (device w (reads w) 0) * 256 + uint (device w (reads w) 1) - offset d,
                      uint (device w (Suc (reads w)) 0) * 256 + uint (device w (Suc (reads w)) 1)))
         \<and> 0 \<le> uint (device w (Suc (reads w)) 0) * 256 + uint (device w (Suc (reads w)) 1)
         \<and> uint (device w (Suc (reads w)) 0) * 256 + uint (device w (Suc (reads w)) 1) \<le> 65535
         \<and> wf_driver (fst (snd (read_raw d w))) \<and> \<not> en_crc (fst (snd (read_raw d w)))"
proof -
  from assms have len: "length (buffer d) = 2" by (simp add: wf_driver_length)
  have r: "fst (read_raw d w) =
           Inr (Some (uint (device w (reads w) 0) * 256 + uint (device w (reads w) 1) - offset d,
                      uint (device w (Suc (reads w)) 0) * 256 + uint (device w (Suc (reads w)) 1)))"
    using assms(2) by (simp add: read_raw_fst [OF assms(1)] len block_2 from_bytes_big_2)
  from read_raw_driver [OF assms(1), of w] obtain b
    where "fst (snd (read_raw d w)) = d\<lparr>buffer := b\<rparr>" by blast
  with assms(2) have e: "\<not> en_crc (fst (snd (read_raw d w)))" by simp
  from from_bytes_big_2_range [of "device w (Suc (reads w)) 0" "device w (Suc (reads w)) 1"]
  have "0 \<le> uint (device w (Suc (reads w)) 0) * 256 + uint (device w (Suc (reads w)) 1)
        \<and> uint (device w (Suc (reads w)) 0) * 256 + uint (device w (Suc (reads w)) 1) \<le> 65535"
    by (simp add: from_bytes_big_2)
  with r e read_raw_wf [OF assms(1), of w] show ?thesis by simp
qed

theorem read_raw_without_checksum_witness:
  "wf_driver \<lparr>addr = 0x6c, pres_range = 1000, pres_func = Method_PRESSURE_MODE_PN,
              offset = 24, en_crc = False, buffer = [0, 0]\<rparr>
   \<and> \<not> en_crc \<lparr>addr = 0x6c, pres_range = 1000, pres_func = Method_PRESSURE_MODE_PN,
                 offset = 24, en_crc = False, buffer = [0, 0]\<rparr>
   \<and> fst (read_raw \<lparr>addr = 0x6c, pres_range = 1000, pres_func = Method_PRESSURE_MODE_PN,
                     offset = 24, en_crc = False, buffer = [0, 0]\<rparr>
             (fresh_world [[0x04, 0x00], [0x27, 0xE6]]))
       = Inr (Some (1000, 10214))"
proof -
  let ?d = "\<lparr>addr = 0x6c, pres_range = 1000, pres_func = Method_PRESSURE_MODE_PN,
             offset = 24, en_crc = False, buffer = [0, 0]\<rparr>"
  have wf: "wf_driver ?d" by (simp add: wf_driver_def)
  have nc: "\<not> en_crc ?d" by simp
  from read_raw_without_checksum [OF wf nc, of "fresh_world [[0x04, 0x00], [0x27, 0xE6]]"]
  have "fst (read_raw ?d (fresh_world [[0x04, 0x00], [0x27, 0xE6]])) = Inr (Some (1000, 10214))"
    by (simp add: fresh_world_def device_of_def)
  with wf nc show ?thesis by blast
qed

subsection \<open>The bus transactions of a raw read\<close>

text \<open>
  C6, as the code has it. A raw read writes the trigger sequence, sleeps 33 milliseconds,
  writes \<open>00 D0 51 2C\<close> and reads the buffer (three bytes with the checksum, two without)
  from register 7. If the checksum is enabled and the pressure block fails it, the read
  stops there. Otherwise it writes \<open>00 D0 61 2C\<close> and reads the buffer from register 7
  again. Nothing else happens on the bus, and the sleep is always there.
\<close>

theorem read_raw_bus_sequence:
  assumes "wf_driver d"
  shows "events (snd (snd (read_raw d w))) =
     events w
     @ [Writeto (addr d) [0x00, 0xd0, 0x40, 0x18, 0x06],
        Sleep_ms 33,
        Writeto (addr d) [0x00, 0xd0, 0x51, 0x2c],
        Readfrom_mem_into (addr d) 0x07 (if en_crc d then 3 else 2)]
     @ (if en_crc d \<and> \<not> checksum_ok (block w 0 3) then []
        else [Writeto (addr d) [0x00, 0xd0, 0x61, 0x2c],
              Readfrom_mem_into (addr d) 0x07 (if en_crc d then 3 else 2)])"
proof (cases "en_crc d")
  case True
  with assms have len: "length (buffer d) = 3" by (simp add: wf_driver_length)
  show ?thesis
    by (simp add: read_raw_eq [OF assms] Let_def len True pressure_events_def
        temperature_events_def)
next
  case False
  with assms have len: "length (buffer d) = 2" by (simp add: wf_driver_length)
  show ?thesis
    by (simp add: read_raw_eq [OF assms] Let_def len False pressure_events_def
        temperature_events_def)
qed

theorem read_raw_bus_sequence_witness:
  "wf_driver \<lparr>addr = 0x6c, pres_range = 250, pres_func = Method_PRESSURE_MODE_P,
              offset = 0, en_crc = False, buffer = [0, 0]\<rparr>
   \<and> events (snd (snd (read_raw
         \<lparr>addr = 0x6c, pres_range = 250, pres_func = Method_PRESSURE_MODE_P,
            offset = 0, en_crc = False, buffer = [0, 0]\<rparr>
         (fresh_world [[0x04, 0x00], [0x27, 0xE6]]))))
       = [Writeto 0x6c [0x00, 0xd0, 0x40, 0x18, 0x06],
          Sleep_ms 33,
          Writeto 0x6c [0x00, 0xd0, 0x51, 0x2c],
          Readfrom_mem_into 0x6c 0x07 2,
          Writeto 0x6c [0x00, 0xd0, 0x61, 0x2c],
          Readfrom_mem_into 0x6c 0x07 2]"
proof -
  let ?d = "\<lparr>addr = 0x6c, pres_range = 250, pres_func = Method_PRESSURE_MODE_P,
             offset = 0, en_crc = False, buffer = [0, 0]\<rparr>"
  have wf: "wf_driver ?d" by (simp add: wf_driver_def)
  from read_raw_bus_sequence [OF wf, of "fresh_world [[0x04, 0x00], [0x27, 0xE6]]"] wf
  show ?thesis by (simp add: fresh_world_def)
qed

text \<open>
  C6, as it is stated, fails when the checksum is enabled and the pressure block fails
  it: the raw read returns after four events and never selects the temperature registers.
\<close>

theorem read_raw_stops_after_pressure_mismatch:
  "events (snd (snd (read_raw
      \<lparr>addr = 0x6c, pres_range = 1000, pres_func = Method_PRESSURE_MODE_PN,
         offset = 0, en_crc = True, buffer = [0, 0, 0]\<rparr>
      (fresh_world [[0x00, 0x00, 0x01]]))))
   = [Writeto 0x6c [0x00, 0xd0, 0x40, 0x18, 0x06],
      Sleep_ms 33,
      Writeto 0x6c [0x00, 0xd0, 0x51, 0x2c],
      Readfrom_mem_into 0x6c 0x07 3]
   \<and> events (snd (snd (read_raw
      \<lparr>addr = 0x6c, pres_range = 1000, pres_func = Method_PRESSURE_MODE_PN,
         offset = 0, en_crc = True, buffer = [0, 0, 0]\<rparr>
      (fresh_world [[0x00, 0x00, 0x01]]))))
   \<noteq> [Writeto 0x6c [0x00, 0xd0, 0x40, 0x18, 0x06],
      Sleep_ms 33,
      Writeto 0x6c [0x00, 0xd0, 0x51, 0x2c],
      Readfrom_mem_into 0x6c 0x07 3,
      Writeto 0x6c [0x00, 0xd0, 0x61, 0x2c],
      Readfrom_mem_into 0x6c 0x07 3]"
proof -
  have e: "events (snd (snd (read_raw
      \<lparr>addr = 0x6c, pres_range = 1000, pres_func = Method_PRESSURE_MODE_PN,
         offset = 0, en_crc = True, buffer = [0, 0, 0]\<rparr>
      (fresh_world [[0x00, 0x00, 0x01]]))))
   = [Writeto 0x6c [0x00, 0xd0, 0x40, 0x18, 0x06],
      Sleep_ms 33,
      Writeto 0x6c [0x00, 0xd0, 0x51, 0x2c],
      Readfrom_mem_into 0x6c 0x07 3]"
    by code_simp
  show ?thesis unfolding e by simp
qed

section \<open>Calibrated readings\<close>

lemma call_pres_func_wf:
  assumes "wf_driver d"
  shows "call_pres_func d x =
     (if pres_range d = 250
      then real_of_int (x - 1024) * real_of_int (pres_range d) / 60000
      else real_of_int (x - 1024) * real_of_int (pres_range d) / 60000
             - real_of_int (pres_range d) / 2)"
  using assms
  by (simp add: wf_driver_def call_pres_func_def PRESSURE_MODE_P_def PRESSURE_MODE_PN_def
      split: if_splits)

lemma call_pres_func_offset [simp]: "call_pres_func (d\<lparr>offset := n\<rparr>) = call_pres_func d"
  by (rule ext, cases "pres_func d")
    (simp_all add: call_pres_func_def PRESSURE_MODE_P_def PRESSURE_MODE_PN_def)

lemma wf_driver_offset [simp]: "wf_driver (d\<lparr>offset := n\<rparr>) = wf_driver d"
  by (simp add: wf_driver_def)

text \<open>
  C4. When the raw read succeeds and the offset is zero, \<^verbatim>\<open>read\<close> returns the
  temperature \<open>(raw_temp - 10214) * 100 / 3739\<close> and the pressure
  \<open>(raw_pres - 1024) * full_scale / 60000\<close> for the full scale 250, and that value minus
  \<open>full_scale / 2\<close> for the full scales 100 and 1000, where the raw counts are the
  big-endian values of the first two bytes of the two blocks. For model 5050 with the raw
  counts 1024 and 10214 the result is \<open>(-500, 0)\<close>.
\<close>

theorem read_calibrated:
  assumes "wf_driver d" and "offset d = 0"
    and "fst (read_raw d w) = Inr (Some (raw_pres, raw_temp))"
  shows "fst (read d w) =
     Inr (Some (if pres_range d = 250
                then real_of_int (raw_pres - 1024) * real_of_int (pres_range d) / 60000
                else real_of_int (raw_pres - 1024) * real_of_int (pres_range d) / 60000
                       - real_of_int (pres_range d) / 2,
                real_of_int (raw_temp - 10214) * 100 / 3739))
     \<and> raw_pres = from_bytes_big (take 2 (block w 0 (length (buffer d))))
     \<and> raw_temp = from_bytes_big (take 2 (block w 1 (length (buffer d))))"
proof -
  have "fst (read d w) = Inr (Some (call_pres_func d raw_pres, temp_celsius raw_temp))"
    by (simp add: read_fst [OF assms(1)] assms(3))
  moreover from assms(2,3)
  have "raw_pres = from_bytes_big (take 2 (block w 0 (length (buffer d))))
        \<and> raw_temp = from_bytes_big (take 2 (block w 1 (length (buffer d))))"
    by (simp add: read_raw_fst [OF assms(1)] split: if_splits)
  ultimately show ?thesis
    by (simp add: call_pres_func_wf [OF assms(1)] temp_celsius_def)
qed

theorem read_calibrated_witness:
  "init (fresh_world [[0x04, 0x00], [0x27, 0xE6]]) I2C_ADDRESS (PStr ''5050'') False 0
     = Inr (\<lparr>addr = I2C_ADDRESS, pres_range = 1000, pres_func = Method_PRESSURE_MODE_PN,
              offset = 0, en_crc = False, buffer = [0, 0]\<rparr>,
            writeto (fresh_world [[0x04, 0x00], [0x27, 0xE6]]) I2C_ADDRESS [0x0b, 0x00])
   \<and> wf_driver \<lparr>addr = I2C_ADDRESS, pres_range = 1000, pres_func = Method_PRESSURE_MODE_PN,
                 offset = 0, en_crc = False, buffer = [0, 0]\<rparr>
   \<and> fst (read_raw \<lparr>addr = I2C_ADDRESS, pres_range = 1000, pres_func = Method_PRESSURE_MODE_PN,
                     offset = 0, en_crc = False, buffer = [0, 0]\<rparr>
             (writeto (fresh_world [[0x04, 0x00], [0x27, 0xE6]]) I2C_ADDRESS [0x0b, 0x00]))
       = Inr (Some (1024, 10214))
   \<and> fst (read \<lparr>addr = I2C_ADDRESS, pres_range = 1000, pres_func = Method_PRESSURE_MODE_PN,
                 offset = 0, en_crc = False, buffer = [0, 0]\<rparr>
             (writeto (fresh_world [[0x04, 0x00], [0x27, 0xE6]]) I2C_ADDRESS [0x0b, 0x00]))
       = Inr (Some (- 500, 0))"
proof -
  let ?d = "\<lparr>addr = I2C_ADDRESS, pres_range = 1000, pres_func = Method_PRESSURE_MODE_PN,
             offset = 0, en_crc = False, buffer = [0, 0]\<rparr>"
  let ?w = "writeto (fresh_world [[0x04, 0x00], [0x27, 0xE6]]) I2C_ADDRESS [0x0b, 0x00]"
  have i: "init (fresh_world [[0x04, 0x00], [0x27, 0xE6]]) I2C_ADDRESS (PStr ''5050'') False 0
             = Inr (?d, ?w)"
    by (simp add: init_PStr init_PInt PRESSURE_RANGE_models numeral_2_eq_2)
  have wf: "wf_driver ?d" by (simp add: wf_driver_def)
  have off: "offset ?d = 0" by simp
  have raw: "fst (read_raw ?d ?w) = Inr (Some (1024, 10214))"
    by code_simp
  from read_calibrated [OF wf off raw]
  have "fst (read ?d ?w) = Inr (Some (- 500, 0))" by simp
  with i wf raw show ?thesis by blast
qed

subsection \<open>The range of the pressure\<close>




section \<open>Rounding to double precision\<close>














section \<open>The offset\<close>




section \<open>Convenience conversions\<close>

lemma prod_eqI2: "fst p = a \<Longrightarrow> snd p = b \<Longrightarrow> p = (a, b)"
  by (cases p) simp

text \<open>
  C9. When \<^verbatim>\<open>read\<close> on the same driver and world returns the pressure \<open>p\<close> and the
  temperature \<open>t\<close>, \<^verbatim>\<open>read_pa\<close> returns \<open>p\<close>, \<^verbatim>\<open>read_psi\<close> returns \<open>p / 6894.75729\<close>,
  \<^verbatim>\<open>read_hpa\<close> returns \<open>p / 100\<close>, \<^verbatim>\<open>read_temp_c\<close> returns \<open>t\<close> and \<^verbatim>\<open>read_temp_f\<close>
  returns \<open>t * 1.8 + 32\<close>. Each of them leaves the driver and the world as a raw read of
  its own leaves them, with the whole sequence of bus transactions appended: nothing is
  kept from an earlier call. So 100 Pa are 1 hPa, 0 degrees Celsius are 32 degrees
  Fahrenheit and 100 are 212; and \<open>p / 6894.75729\<close> is 1 at \<open>p = 6894.75729\<close>.
\<close>

theorem convenience_conversions:
  assumes "wf_driver d" and "fst (read d w) = Inr (Some (p, t))"
  shows "read_pa d w = (Inr p, snd (read_raw d w))
     \<and> read_psi d w = (Inr (p / 6894.75729), snd (read_raw d w))
     \<and> read_hpa d w = (Inr (p / 100), snd (read_raw d w))
     \<and> read_temp_c d w = (Inr t, snd (read_raw d w))
     \<and> read_temp_f d w = (Inr (t * 1.8 + 32), snd (read_raw d w))
     \<and> events (snd (snd (read_raw d w)))
         = events w @ pressure_events (addr d) (length (buffer d))
             @ temperature_events (addr d) (length (buffer d))"
proof -
  have pa: "fst (read_pa d w) = Inr p" by (simp add: read_pa_fst assms(2))
  have tc: "fst (read_temp_c d w) = Inr t" by (simp add: read_temp_c_fst assms(2))
  have psi: "fst (read_psi d w) = Inr (p / 6894.75729)" by (simp add: read_psi_fst pa)
  have hpa: "fst (read_hpa d w) = Inr (p / 100)" by (simp add: read_hpa_fst pa)
  have tf: "fst (read_temp_f d w) = Inr (t * 1.8 + 32)" by (simp add: read_temp_f_fst tc)
  from assms(2) have "fst (read_raw d w) \<noteq> Inr None"
    by (auto simp: read_fst [OF assms(1)])
  then have "\<not> (en_crc d \<and> \<not> checksum_ok (block w 0 (length (buffer d))))"
    by (auto simp: read_raw_fst [OF assms(1)] split: if_splits)
  then have ev: "events (snd (snd (read_raw d w)))
         = events w @ pressure_events (addr d) (length (buffer d))
             @ temperature_events (addr d) (length (buffer d))"
    by (auto simp: read_raw_events [OF assms(1)])
  from prod_eqI2 [OF pa read_pa_snd] prod_eqI2 [OF psi read_psi_snd]
    prod_eqI2 [OF hpa read_hpa_snd] prod_eqI2 [OF tc read_temp_c_snd]
    prod_eqI2 [OF tf read_temp_f_snd] ev
  show ?thesis by blast
qed

theorem convenience_conversions_witness:
  "wf_driver \<lparr>addr = 0x6c, pres_range = 1000, pres_func = Method_PRESSURE_MODE_PN,
              offset = 0, en_crc = False, buffer = [0, 0]\<rparr>
   \<and> fst (read \<lparr>addr = 0x6c, pres_range = 1000, pres_func = Method_PRESSURE_MODE_PN,
                 offset = 0, en_crc = False, buffer = [0, 0]\<rparr>
             (fresh_world [[0x90, 0xA0], [0x36, 0x81]])) = Inr (Some (100, 100))
   \<and> fst (read_hpa \<lparr>addr = 0x6c, pres_range = 1000, pres_func = Method_PRESSURE_MODE_PN,
                     offset = 0, en_crc = False, buffer = [0, 0]\<rparr>
             (fresh_world [[0x90, 0xA0], [0x36, 0x81]])) = Inr 1
   \<and> fst (read_temp_f \<lparr>addr = 0x6c, pres_range = 1000, pres_func = Method_PRESSURE_MODE_PN,
                        offset = 0, en_crc = False, buffer = [0, 0]\<rparr>
             (fresh_world [[0x90, 0xA0], [0x36, 0x81]])) = Inr 212
   \<and> fst (read_psi \<lparr>addr = 0x6c, pres_range = 1000, pres_func = Method_PRESSURE_MODE_PN,
                     offset = 0, en_crc = False, buffer = [0, 0]\<rparr>
             (fresh_world [[0x90, 0xA0], [0x36, 0x81]])) = Inr (100 / 6894.75729)
   \<and> fst (read \<lparr>addr = 0x6c, pres_range = 1000, pres_func = Method_PRESSURE_MODE_PN,
                 offset = 0, en_crc = False, buffer = [0, 0]\<rparr>
             (fresh_world [[0x04, 0x00], [0x27, 0xE6]])) = Inr (Some (- 500, 0))
   \<and> fst (read_temp_f \<lparr>addr = 0x6c, pres_range = 1000, pres_func = Method_PRESSURE_MODE_PN,
                        offset = 0, en_crc = False, buffer = [0, 0]\<rparr>
             (fresh_world [[0x04, 0x00], [0x27, 0xE6]])) = Inr 32"
proof -
  let ?d = "\<lparr>addr = 0x6c, pres_range = 1000, pres_func = Method_PRESSURE_MODE_PN,
             offset = 0, en_crc = False, buffer = [0, 0]\<rparr>"
  let ?w = "fresh_world [[0x90, 0xA0], [0x36, 0x81]]"
  let ?v = "fresh_world [[0x04, 0x00], [0x27, 0xE6]]"
  have wf: "wf_driver ?d" by (simp add: wf_driver_def)
  have r1: "fst (read ?d ?w) = Inr (Some (100, 100))" by code_simp
  have r2: "fst (read ?d ?v) = Inr (Some (- 500, 0))" by code_simp
  from convenience_conversions [OF wf r1]
  have a: "fst (read_hpa ?d ?w) = Inr 1 \<and> fst (read_temp_f ?d ?w) = Inr 212
           \<and> fst (read_psi ?d ?w) = Inr (100 / 6894.75729)"
    by simp
  from convenience_conversions [OF wf r2]
  have b: "fst (read_temp_f ?d ?v) = Inr 32" by simp
  from wf r1 r2 a b show ?thesis by blast
qed

end
